theory Spec2Isabelle
  imports Complex_Main "HOL-Library.Word"
begin

section \<open>PyAudio: the stream wrapper of \<^verbatim>\<open>_portaudiomodule.c\<close> and \<^verbatim>\<open>stream_io.c\<close>\<close>

text \<open>
  The two C files wrap PortAudio streams as Python objects. The embedding below follows
  the C text function by function. What the C code leaves to its surroundings is made
  explicit:
  \<^item> the host runtime (CPython) appears through the values it hands over: Python objects
    are the datatype \<open>py_object\<close>, a raised exception is an \<open>error\<close> value, and calling a
    Python callable asks the parameter \<open>py\<close> what the callable does;
  \<^item> the audio library (PortAudio) is the record \<open>native\<close>: one field per library function
    the C code calls, so every theorem holds for whatever the library answers;
  \<^item> the effects on resources are counted in the record \<open>world\<close>: blocks obtained from
    \<^verbatim>\<open>malloc\<close> and not yet freed, references taken on the callback and not yet given
    back, and the list of the calls made into the library;
  \<^item> a C pointer is an \<open>option\<close>: \<open>None\<close> is \<^verbatim>\<open>NULL\<close>, and reading a field through
    \<^verbatim>\<open>NULL\<close> is the error \<open>NullDereference\<close>.
  \<^item> a call that ends the process instead of returning (\<^verbatim>\<open>PyErr_Print\<close> on
    \<^verbatim>\<open>SystemExit\<close>) is the outcome \<open>ProcessExit\<close>.
  The reference counts of temporaries, the interpreter lock and the \<^verbatim>\<open>VERBOSE\<close> logging
  are not part of the model.
\<close>

subsection \<open>Values of the host runtime\<close>

type_synonym byte = "8 word"

text \<open>
  A C \<^verbatim>\<open>double\<close>, as far as the code looks at it: it is compared with zero and handed on.
  Both zeros compare equal to \<^verbatim>\<open>0\<close> and are the one value \<open>Num 0\<close>; a NaN compares equal to
  nothing.
\<close>

datatype c_double = Num real | PosInf | NegInf | NaN

fun double_eq :: "c_double \<Rightarrow> c_double \<Rightarrow> bool" where
  "double_eq NaN _ = False"
| "double_eq _ NaN = False"
| "double_eq a b = (a = b)"

text \<open>Exception types. \<open>SystemExit\<close> stands for \<^verbatim>\<open>SystemExit\<close> and the classes derived from
  it, \<open>UserException\<close> for any other class a program defines.\<close>

datatype py_exc =
    ValueError | TypeError | OverflowError | SystemError | IOError | SystemExit
  | UserException nat

text \<open>
  \<^verbatim>\<open>PyErr_Print()\<close> prints the traceback of the pending exception and clears it; when the
  exception is \<^verbatim>\<open>SystemExit\<close> it calls \<^verbatim>\<open>Py_Exit\<close> instead and does not return (the
  interpreter is taken to run without its inspect flag).
\<close>

fun PyErr_Print_exits :: "py_exc \<Rightarrow> bool" where
  "PyErr_Print_exits SystemExit = True"
| "PyErr_Print_exits _ = False"

text \<open>A value converted to a C \<^verbatim>\<open>int\<close>: the low 32 bits, signed.\<close>

definition c_int :: "int \<Rightarrow> int" where
  "c_int n = sint (word_of_int n :: 32 word)"

datatype py_object =
    PyNone
  | PyLong int
  | PyFloat c_double
  | PyBytes "byte list"
  | PyStr string
  | PyTuple "py_object list"
  | PyDict "(string \<times> py_object) list"
  | PyCallable nat

text \<open>What a C entry point ends with when it does not return a value.\<close>

datatype error =
    PyErr py_exc py_object  \<comment> \<open>\<^verbatim>\<open>PyErr_SetString\<close> / \<^verbatim>\<open>PyErr_SetObject\<close>, then \<^verbatim>\<open>return NULL\<close>\<close>
  | NullDereference         \<comment> \<open>a field read through a \<^verbatim>\<open>NULL\<close> pointer\<close>

text \<open>The outcome of \<^verbatim>\<open>PyObject_CallFunctionObjArgs\<close>: \<^verbatim>\<open>NULL\<close> with the error indicator
  set to an exception type, or a result object.\<close>

datatype call_result = CallRaised py_exc | CallReturned py_object

type_synonym py_runtime = "nat \<Rightarrow> py_object list \<Rightarrow> call_result"

fun PyCallable_Check :: "py_object \<Rightarrow> bool" where
  "PyCallable_Check (PyCallable f) = True"
| "PyCallable_Check _ = False"

fun PyObject_CallFunctionObjArgs :: "py_runtime \<Rightarrow> py_object \<Rightarrow> py_object list \<Rightarrow> call_result" where
  "PyObject_CallFunctionObjArgs py (PyCallable f) args = py f args"
| "PyObject_CallFunctionObjArgs py _ args = CallRaised TypeError"

text \<open>
  \<^verbatim>\<open>PyArg_ParseTuple(py_result, "z#i", &pData, &output_len, &return_val)\<close>: the value must
  be a tuple of two; \<^verbatim>\<open>z#\<close> takes \<^verbatim>\<open>None\<close> (a \<^verbatim>\<open>NULL\<close> pointer, length 0), bytes or a
  string, and gives the pointer and the length; \<^verbatim>\<open>i\<close> takes an integer that fits a C
  \<^verbatim>\<open>int\<close>. The items are converted from left to right.
\<close>

fun convert_z_hash :: "py_object \<Rightarrow> py_exc + (byte list option \<times> nat)" where
  "convert_z_hash PyNone = Inr (None, 0)"
| "convert_z_hash (PyBytes b) = Inr (Some b, length b)"
| "convert_z_hash (PyStr s) = Inr (Some (map of_char s), length s)"
| "convert_z_hash _ = Inl TypeError"

fun convert_i :: "py_object \<Rightarrow> py_exc + int" where
  "convert_i (PyLong n) =
     (if - (2 ^ 31) \<le> n \<and> n < 2 ^ 31 then Inr n else Inl OverflowError)"
| "convert_i _ = Inl TypeError"

fun PyArg_ParseTuple_z_hash_i :: "py_object \<Rightarrow> py_exc + (byte list option \<times> nat \<times> int)" where
  "PyArg_ParseTuple_z_hash_i (PyTuple [d, r]) =
     (case convert_z_hash d of
        Inl e \<Rightarrow> Inl e
      | Inr (pData, output_len) \<Rightarrow>
          (case convert_i r of
             Inl e \<Rightarrow> Inl e
           | Inr rv \<Rightarrow> Inr (pData, output_len, rv)))"
| "PyArg_ParseTuple_z_hash_i (PyTuple _) = Inl TypeError"
| "PyArg_ParseTuple_z_hash_i _ = Inl SystemError"

subsection \<open>Constants of \<^verbatim>\<open>portaudio.h\<close>\<close>

text \<open>The library header is not part of the repository; the values are those of PortAudio's
  \<^verbatim>\<open>PaStreamCallbackResult\<close> and \<^verbatim>\<open>PaErrorCode\<close> enumerations.\<close>

definition paContinue :: int where "paContinue = 0"
definition paComplete :: int where "paComplete = 1"
definition paAbort :: int where "paAbort = 2"

definition paNoError :: int where "paNoError = 0"
definition paInvalidSampleRate :: int where "paInvalidSampleRate = - 9997"
definition paInvalidDevice :: int where "paInvalidDevice = - 9996"
definition paSampleFormatNotSupported :: int where "paSampleFormatNotSupported = - 9994"
definition paInsufficientMemory :: int where "paInsufficientMemory = - 9992"
definition paBadStreamPtr :: int where "paBadStreamPtr = - 9988"
definition paInternalError :: int where "paInternalError = - 9986"
definition paInputOverflowed :: int where "paInputOverflowed = - 9981"
definition paOutputUnderflowed :: int where "paOutputUnderflowed = - 9980"

subsection \<open>The callback bridge\<close>

record PaStreamCallbackTimeInfo =
  inputBufferAdcTime :: c_double
  currentTime :: c_double
  outputBufferDacTime :: c_double

text \<open>\<^verbatim>\<open>PyAudioCallbackContext\<close>: the callback, a \<^verbatim>\<open>long\<close> thread id and an
  \<^verbatim>\<open>unsigned int\<close> frame size.\<close>

record PyAudioCallbackContext =
  callback :: py_object
  main_thread_id :: int
  frame_size :: "32 word"

text \<open>
  What one invocation of the bridge leaves behind: the \<^verbatim>\<open>int\<close> it returns to the audio
  library, the memory at the \<^verbatim>\<open>output\<close> pointer (\<open>None\<close> for a \<^verbatim>\<open>NULL\<close> pointer), and the
  calls of \<^verbatim>\<open>PyThreadState_SetAsyncExc\<close> it made, each with the thread id and the exception
  type it passed.
\<close>

record bridge_result =
  return_val :: int
  output_mem :: "byte list option"
  async_exc :: "(int \<times> py_exc) list"

text \<open>An invocation of the bridge returns to the audio library, or the process ends inside
  it.\<close>

datatype bridge_outcome = Returned bridge_result | ProcessExit

text \<open>\<^verbatim>\<open>bytes_per_frame * frameCount\<close>: an \<^verbatim>\<open>unsigned int\<close> times an \<^verbatim>\<open>unsigned long\<close>,
  computed in 64 bits with wrap-around and stored in a \<^verbatim>\<open>size_t\<close>.\<close>

definition pa_max_num_bytes :: "32 word \<Rightarrow> 64 word \<Rightarrow> nat" where
  "pa_max_num_bytes bytes_per_frame frameCount =
     unat ((ucast bytes_per_frame :: 64 word) * frameCount)"

text \<open>\<^verbatim>\<open>memcpy(dst, src, n)\<close> and \<^verbatim>\<open>memset(dst + off, c, n)\<close> on the bytes at \<open>dst\<close>.\<close>

definition memcpy :: "byte list \<Rightarrow> byte list \<Rightarrow> nat \<Rightarrow> byte list" where
  "memcpy dst src n = take n src @ drop n dst"

definition memset :: "byte list \<Rightarrow> nat \<Rightarrow> byte \<Rightarrow> nat \<Rightarrow> byte list" where
  "memset dst off c n = take off dst @ replicate n c @ drop (off + n) dst"

text \<open>The block under \<^verbatim>\<open>if (output)\<close>: copy, pad, and force \<^verbatim>\<open>paComplete\<close> after padding.\<close>

definition copy_for_playback ::
  "byte list \<Rightarrow> nat \<Rightarrow> byte list option \<Rightarrow> nat \<Rightarrow> int \<Rightarrow> int \<times> byte list" where
  "copy_for_playback output_data max_num_bytes pData output_len rv =
     (let bytes_to_copy = (if output_len < max_num_bytes then output_len else max_num_bytes);
          copied =
            (case pData of
               None \<Rightarrow> output_data
             | Some src \<Rightarrow>
                 if bytes_to_copy > 0 then memcpy output_data src bytes_to_copy
                 else output_data)
      in if bytes_to_copy < max_num_bytes
         then (paComplete, memset copied bytes_to_copy 0 (max_num_bytes - bytes_to_copy))
         else (rv, copied))"

text \<open>
  The three error exits of the bridge run the same statements:
  \<^verbatim>\<open>PyThreadState_SetAsyncExc(main_thread_id, err); PyErr_Print(); return_val = paAbort;
  goto end;\<close> where \<^verbatim>\<open>PyErr_Print\<close> ends the process for \<^verbatim>\<open>SystemExit\<close>.
\<close>

definition callback_fault :: "int \<Rightarrow> py_exc \<Rightarrow> byte list option \<Rightarrow> bridge_outcome" where
  "callback_fault tid err outp =
     (if PyErr_Print_exits err then ProcessExit
      else Returned \<lparr>return_val = paAbort, output_mem = outp, async_exc = [(tid, err)]\<rparr>)"

text \<open>\<^verbatim>\<open>_stream_callback_cfunction\<close> of \<^verbatim>\<open>_portaudiomodule.c\<close> (an Isabelle name cannot
  start with an underscore: the static functions of that file carry the prefix \<open>priv\<close>).
  \<^verbatim>\<open>PyBytes_FromStringAndSize\<close> is taken to give the bytes object: the size of the input
  buffer is below \<open>2 ^ 63\<close>, as it is for every buffer the audio library can hand over.\<close>

definition priv_stream_callback_cfunction ::
  "py_runtime \<Rightarrow> byte list option \<Rightarrow> byte list option \<Rightarrow> 64 word \<Rightarrow>
   PaStreamCallbackTimeInfo \<Rightarrow> 64 word \<Rightarrow> PyAudioCallbackContext \<Rightarrow> bridge_outcome" where
  "priv_stream_callback_cfunction py inp outp frameCount timeInfo statusFlags context =
     (let py_callback = callback context;
          bytes_per_frame = frame_size context;
          tid = main_thread_id context;
          py_frame_count = PyLong (uint frameCount);
          py_time_info = PyDict
            [(''input_buffer_adc_time'', PyFloat (inputBufferAdcTime timeInfo)),
             (''current_time'', PyFloat (currentTime timeInfo)),
             (''output_buffer_dac_time'', PyFloat (outputBufferDacTime timeInfo))];
          py_status_flags = PyLong (uint statusFlags);
          py_input_data =
            (case inp of
               None \<Rightarrow> PyNone
             | Some mem \<Rightarrow> PyBytes (take (pa_max_num_bytes bytes_per_frame frameCount) mem))
      in case PyObject_CallFunctionObjArgs py py_callback
                [py_input_data, py_frame_count, py_time_info, py_status_flags] of
           CallRaised err \<Rightarrow> callback_fault tid err outp
         | CallReturned py_result \<Rightarrow>
             (case PyArg_ParseTuple_z_hash_i py_result of
                Inl err \<Rightarrow> callback_fault tid err outp
              | Inr (pData, output_len, rv) \<Rightarrow>
                  if rv \<noteq> paComplete \<and> rv \<noteq> paAbort \<and> rv \<noteq> paContinue
                  then callback_fault tid ValueError outp
                  else
                    (case outp of
                       None \<Rightarrow>
                         Returned \<lparr>return_val = rv, output_mem = None, async_exc = []\<rparr>
                     | Some output_data \<Rightarrow>
                         (case copy_for_playback output_data
                                 (pa_max_num_bytes bytes_per_frame frameCount)
                                 pData output_len rv of
                            (rv', mem') \<Rightarrow>
                              Returned \<lparr>return_val = rv', output_mem = Some mem',
                                        async_exc = []\<rparr>))))"

text \<open>\<^verbatim>\<open>stream_callback_cfunc\<close> of \<^verbatim>\<open>stream_io.c\<close>.\<close>

definition stream_callback_cfunc ::
  "py_runtime \<Rightarrow> byte list option \<Rightarrow> byte list option \<Rightarrow> 64 word \<Rightarrow>
   PaStreamCallbackTimeInfo \<Rightarrow> 64 word \<Rightarrow> PyAudioCallbackContext \<Rightarrow> bridge_outcome" where
  "stream_callback_cfunc py inp outp frameCount timeInfo statusFlags context =
     (let py_callback = callback context;
          bytes_per_frame = frame_size context;
          tid = main_thread_id context;
          py_frame_count = PyLong (uint frameCount);
          py_time_info = PyDict
            [(''input_buffer_adc_time'', PyFloat (inputBufferAdcTime timeInfo)),
             (''current_time'', PyFloat (currentTime timeInfo)),
             (''output_buffer_dac_time'', PyFloat (outputBufferDacTime timeInfo))];
          py_status_flags = PyLong (uint statusFlags);
          py_input_data =
            (case inp of
               None \<Rightarrow> PyNone
             | Some mem \<Rightarrow> PyBytes (take (pa_max_num_bytes bytes_per_frame frameCount) mem))
      in case PyObject_CallFunctionObjArgs py py_callback
                [py_input_data, py_frame_count, py_time_info, py_status_flags] of
           CallRaised err \<Rightarrow> callback_fault tid err outp
         | CallReturned py_result \<Rightarrow>
             (case PyArg_ParseTuple_z_hash_i py_result of
                Inl err \<Rightarrow> callback_fault tid err outp
              | Inr (pData, output_len, rv) \<Rightarrow>
                  if rv \<noteq> paComplete \<and> rv \<noteq> paAbort \<and> rv \<noteq> paContinue
                  then callback_fault tid ValueError outp
                  else
                    (case outp of
                       None \<Rightarrow>
                         Returned \<lparr>return_val = rv, output_mem = None, async_exc = []\<rparr>
                     | Some output_data \<Rightarrow>
                         (case copy_for_playback output_data
                                 (pa_max_num_bytes bytes_per_frame frameCount)
                                 pData output_len rv of
                            (rv', mem') \<Rightarrow>
                              Returned \<lparr>return_val = rv', output_mem = Some mem',
                                        async_exc = []\<rparr>))))"

subsection \<open>The stream object and the audio library\<close>

type_synonym PaStream = nat

record PaStreamParameters =
  device :: int
  channelCount :: int
  sampleFormat :: "64 word"
  suggestedLatency :: c_double
  hostApiSpecificStreamInfo :: "nat option"

record PaStreamInfo =
  structVersion :: int
  inputLatency :: c_double
  outputLatency :: c_double
  sampleRate :: c_double

text \<open>The two fields of \<^verbatim>\<open>PaDeviceInfo\<close> that \<^verbatim>\<open>pa_open\<close> reads.\<close>

record PaDeviceInfo =
  defaultLowInputLatency :: c_double
  defaultLowOutputLatency :: c_double

text \<open>\<^verbatim>\<open>_pyAudio_Stream\<close>, and \<^verbatim>\<open>PyAudioStream\<close> of \<^verbatim>\<open>stream_io.c\<close>, whose declaration
  (in \<^verbatim>\<open>stream.h\<close>) is not among the sources: \<^verbatim>\<open>stream_io.c\<close> reads its fields
  \<^verbatim>\<open>stream\<close> and \<^verbatim>\<open>inputParameters\<close> only.\<close>

record pyAudio_Stream =
  stream :: "PaStream option"
  inputParameters :: "PaStreamParameters option"
  outputParameters :: "PaStreamParameters option"
  streamInfo :: "PaStreamInfo option"
  callbackContext :: "PyAudioCallbackContext option"
  is_open :: int

text \<open>The library functions the C code calls. \<^verbatim>\<open>Pa_OpenStream\<close> answers with its error
  code and the stream it stored through its first argument; \<^verbatim>\<open>Pa_ReadStream\<close> with its
  error code and the bytes it left in the buffer.\<close>

record native =
  Pa_GetDeviceCount :: int
  Pa_GetDefaultInputDevice :: int
  Pa_GetDefaultOutputDevice :: int
  Pa_GetDeviceInfo :: "int \<Rightarrow> PaDeviceInfo option"
  Pa_GetSampleSize :: "64 word \<Rightarrow> int"
  Pa_GetErrorText :: "int \<Rightarrow> string"
  Pa_OpenStream ::
    "PaStreamParameters option \<Rightarrow> PaStreamParameters option \<Rightarrow> int \<Rightarrow> int \<Rightarrow> bool \<Rightarrow>
     int \<times> PaStream option"
  Pa_GetStreamInfo :: "PaStream option \<Rightarrow> PaStreamInfo option"
  Pa_WriteStream :: "PaStream option \<Rightarrow> byte list \<Rightarrow> int \<Rightarrow> int"
  Pa_ReadStream :: "PaStream option \<Rightarrow> int \<Rightarrow> int \<Rightarrow> int \<times> byte list"
  Pa_GetStreamTime :: "PaStream option \<Rightarrow> c_double"
  Pa_GetStreamWriteAvailable :: "PaStream option \<Rightarrow> int"
  Pa_GetStreamReadAvailable :: "PaStream option \<Rightarrow> int"

text \<open>The calls into the library that act on a stream, as the C code makes them.\<close>

datatype pa_call =
    Call_OpenStream
  | Call_CloseStream PaStream
  | Call_WriteStream "PaStream option" int
  | Call_ReadStream "PaStream option" int
  | Call_GetStreamTime "PaStream option"
  | Call_GetStreamWriteAvailable "PaStream option"
  | Call_GetStreamReadAvailable "PaStream option"

record world =
  live_allocs :: int
  callback_refs :: int
  open_streams :: int
  native_calls :: "pa_call list"

definition malloc :: "world \<Rightarrow> world" where
  "malloc w = w\<lparr>live_allocs := live_allocs w + 1\<rparr>"

definition free :: "world \<Rightarrow> world" where
  "free w = w\<lparr>live_allocs := live_allocs w - 1\<rparr>"

definition Py_INCREF :: "world \<Rightarrow> world" where
  "Py_INCREF w = w\<lparr>callback_refs := callback_refs w + 1\<rparr>"

definition Py_XDECREF :: "world \<Rightarrow> world" where
  "Py_XDECREF w = w\<lparr>callback_refs := callback_refs w - 1\<rparr>"

definition called :: "pa_call \<Rightarrow> world \<Rightarrow> world" where
  "called c w = w\<lparr>native_calls := native_calls w @ [c]\<rparr>"

text \<open>\<^verbatim>\<open>_is_open\<close>: \<^verbatim>\<open>(obj) && (obj->is_open)\<close>.\<close>

fun priv_is_open :: "pyAudio_Stream option \<Rightarrow> bool" where
  "priv_is_open None = False"
| "priv_is_open (Some obj) = (is_open obj \<noteq> 0)"

text \<open>\<^verbatim>\<open>_cleanup_Stream_object\<close>, one definition for each of its \<^verbatim>\<open>if\<close> blocks.\<close>

definition cleanup_native :: "world \<Rightarrow> pyAudio_Stream \<Rightarrow> world \<times> pyAudio_Stream" where
  "cleanup_native w streamObject =
     (case stream streamObject of
        None \<Rightarrow> (w, streamObject)
      | Some st \<Rightarrow>
          (called (Call_CloseStream st) (w\<lparr>open_streams := open_streams w - 1\<rparr>),
           streamObject\<lparr>stream := None\<rparr>))"

definition cleanup_input :: "world \<Rightarrow> pyAudio_Stream \<Rightarrow> world \<times> pyAudio_Stream" where
  "cleanup_input w streamObject =
     (case inputParameters streamObject of
        None \<Rightarrow> (w, streamObject)
      | Some p \<Rightarrow> (free w, streamObject\<lparr>inputParameters := None\<rparr>))"

definition cleanup_output :: "world \<Rightarrow> pyAudio_Stream \<Rightarrow> world \<times> pyAudio_Stream" where
  "cleanup_output w streamObject =
     (case outputParameters streamObject of
        None \<Rightarrow> (w, streamObject)
      | Some p \<Rightarrow> (free w, streamObject\<lparr>outputParameters := None\<rparr>))"

definition cleanup_context :: "world \<Rightarrow> pyAudio_Stream \<Rightarrow> world \<times> pyAudio_Stream" where
  "cleanup_context w streamObject =
     (case callbackContext streamObject of
        None \<Rightarrow> (w, streamObject)
      | Some c \<Rightarrow> (free (Py_XDECREF w), streamObject\<lparr>callbackContext := None\<rparr>))"

definition priv_cleanup_Stream_object :: "world \<Rightarrow> pyAudio_Stream \<Rightarrow> world \<times> pyAudio_Stream" where
  "priv_cleanup_Stream_object w streamObject =
     (case cleanup_native w streamObject of
        (w1, s1) \<Rightarrow>
          (case cleanup_input w1 (s1\<lparr>streamInfo := None\<rparr>) of
             (w2, s2) \<Rightarrow>
               (case cleanup_output w2 s2 of
                  (w3, s3) \<Rightarrow>
                    (case cleanup_context w3 s3 of
                       (w4, s4) \<Rightarrow> (w4, s4\<lparr>is_open := 0\<rparr>)))))"

text \<open>\<^verbatim>\<open>PyErr_SetObject(PyExc_IOError, Py_BuildValue("(i,s)", code, text))\<close>.\<close>

definition io_error :: "int \<Rightarrow> string \<Rightarrow> error" where
  "io_error code msg = PyErr IOError (PyTuple [PyLong code, PyStr msg])"

definition value_error :: "string \<Rightarrow> error" where
  "value_error msg = PyErr ValueError (PyStr msg)"

text \<open>What a pointer holds: one block or stream when it is not \<^verbatim>\<open>NULL\<close>; and the call that
  closes a stream that is there.\<close>

definition held :: "'a option \<Rightarrow> int" where
  "held p = (case p of None \<Rightarrow> 0 | Some x \<Rightarrow> 1)"

definition close_calls :: "PaStream option \<Rightarrow> pa_call list" where
  "close_calls st = (case st of None \<Rightarrow> [] | Some a \<Rightarrow> [Call_CloseStream a])"

text \<open>A stream after tear-down: every pointer \<^verbatim>\<open>NULL\<close>, \<^verbatim>\<open>is_open\<close> zero.\<close>

definition closed_stream :: pyAudio_Stream where
  "closed_stream =
     \<lparr>stream = None, inputParameters = None, outputParameters = None, streamInfo = None,
      callbackContext = None, is_open = 0\<rparr>"

subsection \<open>Stream time\<close>

type_synonym 'a stream_op = "world \<times> pyAudio_Stream \<times> (error + 'a)"

text \<open>\<^verbatim>\<open>pa_get_stream_time\<close>.\<close>

definition pa_get_stream_time :: "native \<Rightarrow> world \<Rightarrow> pyAudio_Stream \<Rightarrow> py_object stream_op" where
  "pa_get_stream_time pa w streamObject =
     (if \<not> priv_is_open (Some streamObject)
      then (w, streamObject, Inl (io_error paBadStreamPtr ''Stream closed''))
      else
        (let time = Pa_GetStreamTime pa (stream streamObject);
             w1 = called (Call_GetStreamTime (stream streamObject)) w
         in if double_eq time (Num 0)
            then (case priv_cleanup_Stream_object w1 streamObject of
                    (w2, s2) \<Rightarrow> (w2, s2, Inl (io_error paInternalError ''Internal Error'')))
            else (w1, streamObject, Inr (PyFloat time))))"

subsection \<open>Blocking write and read\<close>

text \<open>\<^verbatim>\<open>pa_write_stream\<close> of \<^verbatim>\<open>_portaudiomodule.c\<close>. The arguments are those
  \<^verbatim>\<open>PyArg_ParseTuple\<close> stored: the bytes of \<^verbatim>\<open>data\<close> (their number, \<^verbatim>\<open>total_size\<close>, is
  \<open>length data\<close>), \<^verbatim>\<open>total_frames\<close> and \<^verbatim>\<open>should_throw_exception\<close>.\<close>

definition pa_write_stream ::
  "native \<Rightarrow> world \<Rightarrow> pyAudio_Stream \<Rightarrow> byte list \<Rightarrow> int \<Rightarrow> int \<Rightarrow> py_object stream_op" where
  "pa_write_stream pa w streamObject data total_frames should_throw_exception =
     (if total_frames < 0
      then (w, streamObject, Inl (value_error ''Invalid number of frames''))
      else if \<not> priv_is_open (Some streamObject)
      then (w, streamObject, Inl (io_error paBadStreamPtr ''Stream closed''))
      else
        (let err = Pa_WriteStream pa (stream streamObject) data total_frames;
             w1 = called (Call_WriteStream (stream streamObject) total_frames) w;
             done = (w1, streamObject, Inr PyNone);
             failed =
               (case priv_cleanup_Stream_object w1 streamObject of
                  (w2, s2) \<Rightarrow> (w2, s2, Inl (io_error err (Pa_GetErrorText pa err))))
         in if err \<noteq> paNoError
            then (if err = paOutputUnderflowed
                  then (if should_throw_exception \<noteq> 0 then failed else done)
                  else failed)
            else done))"

text \<open>
  \<^verbatim>\<open>PyBytes_FromStringAndSize(NULL, num_bytes)\<close> gives a bytes object of that size, or
  \<^verbatim>\<open>NULL\<close> for a negative size (memory is taken not to run out). \<^verbatim>\<open>PyBytes_AsString\<close>
  reads the type of its argument, so it fails on \<^verbatim>\<open>NULL\<close>; on a bytes object it gives the
  buffer and never \<^verbatim>\<open>NULL\<close>. An object and its buffer are given by their size.
\<close>

definition PyBytes_FromStringAndSize_NULL :: "int \<Rightarrow> int option" where
  "PyBytes_FromStringAndSize_NULL num_bytes = (if num_bytes < 0 then None else Some num_bytes)"

fun PyBytes_AsString :: "int option \<Rightarrow> error + int option" where
  "PyBytes_AsString None = Inl NullDereference"
| "PyBytes_AsString (Some nbytes) = Inr (Some nbytes)"

text \<open>\<^verbatim>\<open>pa_read_stream\<close> of \<^verbatim>\<open>_portaudiomodule.c\<close>. The C code reads
  \<^verbatim>\<open>inputParameters->channelCount\<close> with no test of the pointer; \<^verbatim>\<open>num_bytes\<close> is a
  product of three \<^verbatim>\<open>int\<close>s kept in an \<^verbatim>\<open>int\<close>.\<close>

definition pa_read_stream ::
  "native \<Rightarrow> world \<Rightarrow> pyAudio_Stream \<Rightarrow> int \<Rightarrow> int \<Rightarrow> py_object stream_op" where
  "pa_read_stream pa w streamObject total_frames should_raise_exception =
     (if total_frames < 0
      then (w, streamObject, Inl (value_error ''Invalid number of frames''))
      else if \<not> priv_is_open (Some streamObject)
      then (w, streamObject, Inl (io_error paBadStreamPtr ''Stream closed''))
      else
        (case inputParameters streamObject of
           None \<Rightarrow> (w, streamObject, Inl NullDereference)
         | Some ip \<Rightarrow>
             (let num_bytes =
                    c_int (total_frames * channelCount ip *
                           Pa_GetSampleSize pa (sampleFormat ip))
              in case PyBytes_AsString (PyBytes_FromStringAndSize_NULL num_bytes) of
                   Inl e \<Rightarrow> (w, streamObject, Inl e)
                 | Inr None \<Rightarrow>
                     (w, streamObject, Inl (io_error paInsufficientMemory ''Out of memory''))
                 | Inr (Some nbytes) \<Rightarrow>
                     (case Pa_ReadStream pa (stream streamObject) nbytes total_frames of
                        (err, filled) \<Rightarrow>
                          (let w1 = called (Call_ReadStream (stream streamObject) total_frames) w;
                               done = (w1, streamObject, Inr (PyBytes filled));
                               failed =
                                 (case priv_cleanup_Stream_object w1 streamObject of
                                    (w2, s2) \<Rightarrow>
                                      (w2, s2, Inl (io_error err (Pa_GetErrorText pa err))))
                           in if err \<noteq> paNoError
                              then (if err = paInputOverflowed
                                    then (if should_raise_exception \<noteq> 0 then failed else done)
                                    else failed)
                              else done)))))"

text \<open>\<^verbatim>\<open>pa_get_stream_write_available\<close> and \<^verbatim>\<open>pa_get_stream_read_available\<close> of
  \<^verbatim>\<open>_portaudiomodule.c\<close>.\<close>

definition pa_get_stream_write_available ::
  "native \<Rightarrow> world \<Rightarrow> pyAudio_Stream \<Rightarrow> py_object stream_op" where
  "pa_get_stream_write_available pa w streamObject =
     (if \<not> priv_is_open (Some streamObject)
      then (w, streamObject, Inl (io_error paBadStreamPtr ''Stream closed''))
      else
        (let frames = Pa_GetStreamWriteAvailable pa (stream streamObject)
         in (called (Call_GetStreamWriteAvailable (stream streamObject)) w, streamObject,
             Inr (PyLong frames))))"

definition pa_get_stream_read_available ::
  "native \<Rightarrow> world \<Rightarrow> pyAudio_Stream \<Rightarrow> py_object stream_op" where
  "pa_get_stream_read_available pa w streamObject =
     (if \<not> priv_is_open (Some streamObject)
      then (w, streamObject, Inl (io_error paBadStreamPtr ''Stream closed''))
      else
        (let frames = Pa_GetStreamReadAvailable pa (stream streamObject)
         in (called (Call_GetStreamReadAvailable (stream streamObject)) w, streamObject,
             Inr (PyLong frames))))"

subsection \<open>The same four operations in \<^verbatim>\<open>stream_io.c\<close>\<close>

text \<open>
  \<^verbatim>\<open>stream_io.c\<close> calls \<^verbatim>\<open>is_stream_open\<close> and \<^verbatim>\<open>cleanup_stream\<close>, which \<^verbatim>\<open>stream.h\<close>
  declares and a file that is not among the sources defines. They are the parameters
  \<open>is_stream_open\<close> and \<open>cleanup_stream\<close> of the definitions below.
\<close>

type_synonym open_check = "pyAudio_Stream option \<Rightarrow> bool"
type_synonym cleanup = "world \<Rightarrow> pyAudio_Stream \<Rightarrow> world \<times> pyAudio_Stream"


text \<open>
  Modelled from the spec: \<^verbatim>\<open>cleanup_stream\<close>, whose C text is missing. The spec has one
  tear-down routine, shared by close and by every error exit, which "releases the native
  stream, both parameter blocks, and the callback context (releasing the retained callback
  reference)" and "transitions to Closed"; it is idempotent, so that a handle "can never be
  double-freed", and after it property reads "never return stale data". So each resource
  the handle holds is released once, a native stream that is there is closed, and the
  handle is left holding nothing, its open flag cleared.
\<close>

definition spec_cleanup_stream :: cleanup where
  "spec_cleanup_stream w h =
     (\<lparr>live_allocs =
         live_allocs w -
           (held (inputParameters h) + held (outputParameters h) + held (callbackContext h)),
       callback_refs = callback_refs w - held (callbackContext h),
       open_streams = open_streams w - held (stream h),
       native_calls = native_calls w @ close_calls (stream h)\<rparr>,
      closed_stream)"

definition sio_pa_write_stream ::
  "open_check \<Rightarrow> cleanup \<Rightarrow> native \<Rightarrow> world \<Rightarrow> pyAudio_Stream \<Rightarrow> byte list \<Rightarrow> int \<Rightarrow> int \<Rightarrow>
   py_object stream_op" where
  "sio_pa_write_stream is_stream_open cleanup_stream pa w streamObject data total_frames
       should_throw_exception =
     (if total_frames < 0
      then (w, streamObject, Inl (value_error ''Invalid number of frames''))
      else if \<not> is_stream_open (Some streamObject)
      then (w, streamObject, Inl (io_error paBadStreamPtr ''Stream closed''))
      else
        (let err = Pa_WriteStream pa (stream streamObject) data total_frames;
             w1 = called (Call_WriteStream (stream streamObject) total_frames) w;
             done = (w1, streamObject, Inr PyNone);
             failed =
               (case cleanup_stream w1 streamObject of
                  (w2, s2) \<Rightarrow> (w2, s2, Inl (io_error err (Pa_GetErrorText pa err))))
         in if err \<noteq> paNoError
            then (if err = paOutputUnderflowed
                  then (if should_throw_exception \<noteq> 0 then failed else done)
                  else failed)
            else done))"

definition sio_pa_read_stream ::
  "open_check \<Rightarrow> cleanup \<Rightarrow> native \<Rightarrow> world \<Rightarrow> pyAudio_Stream \<Rightarrow> int \<Rightarrow> int \<Rightarrow>
   py_object stream_op" where
  "sio_pa_read_stream is_stream_open cleanup_stream pa w streamObject total_frames
       should_raise_exception =
     (if total_frames < 0
      then (w, streamObject, Inl (value_error ''Invalid number of frames''))
      else if \<not> is_stream_open (Some streamObject)
      then (w, streamObject, Inl (io_error paBadStreamPtr ''Stream closed''))
      else
        (case inputParameters streamObject of
           None \<Rightarrow> (w, streamObject, Inl NullDereference)
         | Some ip \<Rightarrow>
             (let num_bytes =
                    c_int (total_frames * channelCount ip *
                           Pa_GetSampleSize pa (sampleFormat ip))
              in case PyBytes_AsString (PyBytes_FromStringAndSize_NULL num_bytes) of
                   Inl e \<Rightarrow> (w, streamObject, Inl e)
                 | Inr None \<Rightarrow>
                     (w, streamObject, Inl (io_error paInsufficientMemory ''Out of memory''))
                 | Inr (Some nbytes) \<Rightarrow>
                     (case Pa_ReadStream pa (stream streamObject) nbytes total_frames of
                        (err, filled) \<Rightarrow>
                          (let w1 = called (Call_ReadStream (stream streamObject) total_frames) w;
                               done = (w1, streamObject, Inr (PyBytes filled));
                               failed =
                                 (case cleanup_stream w1 streamObject of
                                    (w2, s2) \<Rightarrow>
                                      (w2, s2, Inl (io_error err (Pa_GetErrorText pa err))))
                           in if err \<noteq> paNoError
                              then (if err = paInputOverflowed
                                    then (if should_raise_exception \<noteq> 0 then failed else done)
                                    else failed)
                              else done)))))"

definition sio_pa_get_stream_write_available ::
  "open_check \<Rightarrow> native \<Rightarrow> world \<Rightarrow> pyAudio_Stream \<Rightarrow> py_object stream_op" where
  "sio_pa_get_stream_write_available is_stream_open pa w streamObject =
     (if \<not> is_stream_open (Some streamObject)
      then (w, streamObject, Inl (io_error paBadStreamPtr ''Stream closed''))
      else
        (let frames = Pa_GetStreamWriteAvailable pa (stream streamObject)
         in (called (Call_GetStreamWriteAvailable (stream streamObject)) w, streamObject,
             Inr (PyLong frames))))"

definition sio_pa_get_stream_read_available ::
  "open_check \<Rightarrow> native \<Rightarrow> world \<Rightarrow> pyAudio_Stream \<Rightarrow> py_object stream_op" where
  "sio_pa_get_stream_read_available is_stream_open pa w streamObject =
     (if \<not> is_stream_open (Some streamObject)
      then (w, streamObject, Inl (io_error paBadStreamPtr ''Stream closed''))
      else
        (let frames = Pa_GetStreamReadAvailable pa (stream streamObject)
         in (called (Call_GetStreamReadAvailable (stream streamObject)) w, streamObject,
             Inr (PyLong frames))))"

subsection \<open>Opening a stream\<close>

text \<open>
  The arguments of \<^verbatim>\<open>pa_open\<close> as \<^verbatim>\<open>PyArg_ParseTupleAndKeywords\<close> stores them. A device
  index argument is absent, \<^verbatim>\<open>None\<close>, an object that \<^verbatim>\<open>PyNumber_Check\<close> refuses, a
  number of which \<^verbatim>\<open>PyNumber_Long\<close> makes no integer (it returns \<^verbatim>\<open>NULL\<close>), or a number,
  given by the Python integer \<^verbatim>\<open>PyNumber_Long\<close> makes of it.
\<close>

datatype index_arg = ArgAbsent | ArgNone | ArgNotNumber | ArgNoLong | ArgNumber int

record open_kwargs =
  kw_rate :: int
  kw_channels :: int
  kw_format :: "64 word"
  kw_input :: int
  kw_output :: int
  kw_input_device_index :: index_arg
  kw_output_device_index :: index_arg
  kw_frames_per_buffer :: int
  kw_stream_callback :: "py_object option"

text \<open>
  \<^verbatim>\<open>PyLong_AsLong(x)\<close>: the value, or \<^verbatim>\<open>-1\<close> with \<^verbatim>\<open>OverflowError\<close> left pending when it
  does not fit a \<^verbatim>\<open>long\<close>. The C code does not test for the error; the second component
  says whether it is pending.
\<close>

definition PyLong_AsLong :: "int \<Rightarrow> int \<times> bool" where
  "PyLong_AsLong n = (if - (2 ^ 63) \<le> n \<and> n < 2 ^ 63 then (n, False) else (- 1, True))"

text \<open>
  One device index argument: the index as a C \<^verbatim>\<open>int\<close>, and whether an exception is left
  pending. With \<^verbatim>\<open>NULL\<close> from \<^verbatim>\<open>PyNumber_Long\<close> the code runs \<^verbatim>\<open>Py_DECREF\<close> on
  \<^verbatim>\<open>NULL\<close>.
\<close>

fun device_index_of :: "string \<Rightarrow> index_arg \<Rightarrow> error + (int \<times> bool)" where
  "device_index_of msg ArgAbsent = Inr (- 1, False)"
| "device_index_of msg ArgNone = Inr (- 1, False)"
| "device_index_of msg ArgNotNumber = Inl (value_error msg)"
| "device_index_of msg ArgNoLong = Inl NullDereference"
| "device_index_of msg (ArgNumber n) =
     Inr (c_int (fst (PyLong_AsLong n)), snd (PyLong_AsLong n))"

text \<open>The block under \<^verbatim>\<open>if (output)\<close>: the device is tested against both ends of the
  range.\<close>

definition open_output_parameters ::
  "native \<Rightarrow> world \<Rightarrow> open_kwargs \<Rightarrow> int \<Rightarrow> world \<times> (error + PaStreamParameters option)" where
  "open_output_parameters pa w kw output_device_index =
     (if kw_output kw = 0 then (w, Inr None)
      else
        (let w1 = malloc w;
             dev = (if output_device_index < 0 then Pa_GetDefaultOutputDevice pa
                    else output_device_index)
         in if dev < 0 \<or> dev \<ge> Pa_GetDeviceCount pa
            then (free w1,
                  Inl (io_error paInvalidDevice
                         ''Invalid output device (no default output device)''))
            else
              (case Pa_GetDeviceInfo pa dev of
                 None \<Rightarrow> (w1, Inl NullDereference)
               | Some info \<Rightarrow>
                   (w1, Inr (Some \<lparr>device = dev, channelCount = kw_channels kw,
                                    sampleFormat = kw_format kw,
                                    suggestedLatency = defaultLowOutputLatency info,
                                    hostApiSpecificStreamInfo = None\<rparr>)))))"

text \<open>The block under \<^verbatim>\<open>if (input)\<close>: the device is tested against zero only, and the
  message is the C code's.\<close>

definition open_input_parameters ::
  "native \<Rightarrow> world \<Rightarrow> open_kwargs \<Rightarrow> int \<Rightarrow> world \<times> (error + PaStreamParameters option)" where
  "open_input_parameters pa w kw input_device_index =
     (if kw_input kw = 0 then (w, Inr None)
      else
        (let w1 = malloc w;
             dev = (if input_device_index < 0 then Pa_GetDefaultInputDevice pa
                    else input_device_index)
         in if dev < 0
            then (free w1,
                  Inl (io_error paInvalidDevice
                         ''Invalid input device (no default output device)''))
            else
              (case Pa_GetDeviceInfo pa dev of
                 None \<Rightarrow> (w1, Inl NullDereference)
               | Some info \<Rightarrow>
                   (w1, Inr (Some \<lparr>device = dev, channelCount = kw_channels kw,
                                    sampleFormat = kw_format kw,
                                    suggestedLatency = defaultLowInputLatency info,
                                    hostApiSpecificStreamInfo = None\<rparr>)))))"

text \<open>The block under \<^verbatim>\<open>if (stream_callback)\<close>; \<open>tid\<close> is
  \<^verbatim>\<open>PyThreadState_Get()->thread_id\<close>. The product is an \<^verbatim>\<open>int\<close> stored in an
  \<^verbatim>\<open>unsigned int\<close>.\<close>

definition open_callback_context ::
  "native \<Rightarrow> int \<Rightarrow> world \<Rightarrow> open_kwargs \<Rightarrow> world \<times> PyAudioCallbackContext option" where
  "open_callback_context pa tid w kw =
     (case kw_stream_callback kw of
        None \<Rightarrow> (w, None)
      | Some cb \<Rightarrow>
          (malloc (Py_INCREF w),
           Some \<lparr>callback = cb, main_thread_id = tid,
                 frame_size = word_of_int (Pa_GetSampleSize pa (kw_format kw) * kw_channels kw)\<rparr>))"

text \<open>From \<^verbatim>\<open>Pa_OpenStream\<close> to the end of \<^verbatim>\<open>pa_open\<close>. Neither error exit frees or
  closes anything.\<close>

definition open_native ::
  "native \<Rightarrow> world \<Rightarrow> open_kwargs \<Rightarrow> PaStreamParameters option \<Rightarrow> PaStreamParameters option \<Rightarrow>
   PyAudioCallbackContext option \<Rightarrow> world \<times> (error + pyAudio_Stream)" where
  "open_native pa w kw inputParams outputParams context =
     (case Pa_OpenStream pa inputParams outputParams (kw_rate kw) (kw_frames_per_buffer kw)
             (kw_stream_callback kw \<noteq> None) of
        (err, strm) \<Rightarrow>
          (let w1 = called Call_OpenStream w in
           if err \<noteq> paNoError
           then (w1, Inl (io_error err (Pa_GetErrorText pa err)))
           else
             (let w2 = w1\<lparr>open_streams := open_streams w1 + 1\<rparr> in
              case Pa_GetStreamInfo pa strm of
                None \<Rightarrow>
                  (w2, Inl (io_error paInternalError ''Could not get stream information''))
              | Some info \<Rightarrow>
                  (w2, Inr \<lparr>stream = strm, inputParameters = inputParams,
                            outputParameters = outputParams, streamInfo = Some info,
                            callbackContext = context, is_open = 1\<rparr>))))"

text \<open>
  The return of \<^verbatim>\<open>pa_open\<close> to the interpreter. An error the code raised replaces a
  pending one. A stream object returned while an exception is pending is dropped by the
  interpreter, which runs \<^verbatim>\<open>_pyAudio_Stream_dealloc\<close> and so \<^verbatim>\<open>_cleanup_Stream_object\<close>,
  and the call ends in \<^verbatim>\<open>SystemError\<close> (the wording of the message is the interpreter's).
\<close>

definition call_returns ::
  "bool \<Rightarrow> world \<times> (error + pyAudio_Stream) \<Rightarrow> world \<times> (error + pyAudio_Stream)" where
  "call_returns pending out =
     (case out of
        (w, Inl e) \<Rightarrow> (w, Inl e)
      | (w, Inr streamObject) \<Rightarrow>
          if pending
          then (fst (priv_cleanup_Stream_object w streamObject),
                Inl (PyErr SystemError
                       (PyStr ''<built-in function open> returned a result with an exception set'')))
          else (w, Inr streamObject))"

text \<open>\<^verbatim>\<open>pa_open\<close>, in the order of the C text.\<close>

definition pa_open :: "native \<Rightarrow> int \<Rightarrow> world \<Rightarrow> open_kwargs \<Rightarrow> world \<times> (error + pyAudio_Stream)" where
  "pa_open pa tid w kw =
     (if (case kw_stream_callback kw of None \<Rightarrow> False | Some cb \<Rightarrow> PyCallable_Check cb = False)
      then (w, Inl (PyErr TypeError (PyStr ''stream_callback must be callable'')))
      else
        (case device_index_of ''input_device_index must be integer (or None)''
                (kw_input_device_index kw) of
           Inl e \<Rightarrow> (w, Inl e)
         | Inr (input_device_index, input_pending) \<Rightarrow>
             (case device_index_of ''output_device_index must be integer (or None)''
                     (kw_output_device_index kw) of
                Inl e \<Rightarrow> (w, Inl e)
              | Inr (output_device_index, output_pending) \<Rightarrow>
                  if kw_input kw = 0 \<and> kw_output kw = 0
                  then (w, Inl (value_error ''Must specify either input or output''))
                  else if kw_channels kw < 1
                  then (w, Inl (value_error ''Invalid audio channels''))
                  else
                    (case open_output_parameters pa w kw output_device_index of
                       (w1, Inl e) \<Rightarrow> (w1, Inl e)
                     | (w1, Inr outputParams) \<Rightarrow>
                         (case open_input_parameters pa w1 kw input_device_index of
                            (w2, Inl e) \<Rightarrow> (w2, Inl e)
                          | (w2, Inr inputParams) \<Rightarrow>
                              (case open_callback_context pa tid w2 kw of
                                 (w3, context) \<Rightarrow>
                                   call_returns (input_pending \<or> output_pending)
                                     (open_native pa w3 kw inputParams outputParams
                                        context)))))))"

subsection \<open>The arguments the bridge passes to the callback\<close>

text \<open>The four objects both bridges build and pass to \<^verbatim>\<open>PyObject_CallFunctionObjArgs\<close>,
  named so that theorems can speak of what the callback answered.\<close>

definition callback_arguments ::
  "byte list option \<Rightarrow> 64 word \<Rightarrow> PaStreamCallbackTimeInfo \<Rightarrow> 64 word \<Rightarrow>
   PyAudioCallbackContext \<Rightarrow> py_object list" where
  "callback_arguments inp frameCount timeInfo statusFlags context =
     [case inp of
        None \<Rightarrow> PyNone
      | Some mem \<Rightarrow> PyBytes (take (pa_max_num_bytes (frame_size context) frameCount) mem),
      PyLong (uint frameCount),
      PyDict
        [(''input_buffer_adc_time'', PyFloat (inputBufferAdcTime timeInfo)),
         (''current_time'', PyFloat (currentTime timeInfo)),
         (''output_buffer_dac_time'', PyFloat (outputBufferDacTime timeInfo))],
      PyLong (uint statusFlags)]"

subsection \<open>A small audio library and host runtime to run the code on\<close>

text \<open>
  Two devices, the second the default output; 16-bit samples (\<^verbatim>\<open>paInt16 = 8\<close>) take two
  bytes; a stream opens at 44100 Hz only, and any other rate is \<^verbatim>\<open>paInvalidSampleRate\<close>;
  \<^verbatim>\<open>Pa_GetDeviceInfo\<close> gives \<^verbatim>\<open>NULL\<close> for an index outside the device list, as PortAudio
  documents. The stream time is reported as zero and the read availability as a negative
  error code. Callable \<open>0\<close> returns three bytes and \<^verbatim>\<open>paContinue\<close>, callable \<open>2\<close> raises
  \<^verbatim>\<open>SystemExit\<close> (it calls \<^verbatim>\<open>sys.exit()\<close>), every other callable raises an exception of
  the program's own.
\<close>

definition fake_pa :: native where
  "fake_pa =
     \<lparr>Pa_GetDeviceCount = 2,
      Pa_GetDefaultInputDevice = 0,
      Pa_GetDefaultOutputDevice = 1,
      Pa_GetDeviceInfo =
        (\<lambda>i. if 0 \<le> i \<and> i < 2
             then Some \<lparr>defaultLowInputLatency = Num 0.01, defaultLowOutputLatency = Num 0.02\<rparr>
             else None),
      Pa_GetSampleSize =
        (\<lambda>f. if f = 8 then 2 else if f = 1 then 4 else paSampleFormatNotSupported),
      Pa_GetErrorText =
        (\<lambda>e. if e = paInvalidSampleRate then ''Invalid sample rate'' else ''PortAudio error''),
      Pa_OpenStream =
        (\<lambda>ip op r fpb cb. if r = 44100 then (paNoError, Some 1) else (paInvalidSampleRate, None)),
      Pa_GetStreamInfo =
        (\<lambda>st. case st of
                None \<Rightarrow> None
              | Some a \<Rightarrow> Some \<lparr>structVersion = 1, inputLatency = Num 0.01,
                                outputLatency = Num 0.02, sampleRate = Num 44100\<rparr>),
      Pa_WriteStream = (\<lambda>st d n. paNoError),
      Pa_ReadStream = (\<lambda>st b n. (paNoError, replicate (nat b) 0)),
      Pa_GetStreamTime = (\<lambda>st. Num 0),
      Pa_GetStreamWriteAvailable = (\<lambda>st. 1024),
      Pa_GetStreamReadAvailable = (\<lambda>st. paBadStreamPtr)\<rparr>"

definition fake_py :: py_runtime where
  "fake_py f args =
     (if f = 0 then CallReturned (PyTuple [PyBytes [1, 2, 3], PyLong paContinue])
      else if f = 2 then CallRaised SystemExit
      else CallRaised (UserException 7))"

definition world0 :: world where
  "world0 = \<lparr>live_allocs = 0, callback_refs = 0, open_streams = 0, native_calls = []\<rparr>"

definition time0 :: PaStreamCallbackTimeInfo where
  "time0 = \<lparr>inputBufferAdcTime = Num 0, currentTime = Num 1, outputBufferDacTime = Num 2\<rparr>"

definition context0 :: "nat \<Rightarrow> PyAudioCallbackContext" where
  "context0 f = \<lparr>callback = PyCallable f, main_thread_id = 42, frame_size = 4\<rparr>"

definition output_kwargs :: open_kwargs where
  "output_kwargs =
     \<lparr>kw_rate = 44100, kw_channels = 2, kw_format = 8, kw_input = 0, kw_output = 1,
      kw_input_device_index = ArgAbsent, kw_output_device_index = ArgAbsent,
      kw_frames_per_buffer = 0, kw_stream_callback = None\<rparr>"

definition output_stream :: pyAudio_Stream where
  "output_stream =
     \<lparr>stream = Some 1, inputParameters = None,
      outputParameters =
        Some \<lparr>device = 1, channelCount = 2, sampleFormat = 8, suggestedLatency = Num 0.02,
              hostApiSpecificStreamInfo = None\<rparr>,
      streamInfo =
        Some \<lparr>structVersion = 1, inputLatency = Num 0.01, outputLatency = Num 0.02,
              sampleRate = Num 44100\<rparr>,
      callbackContext = None, is_open = 1\<rparr>"

definition world1 :: world where
  "world1 = \<lparr>live_allocs = 1, callback_refs = 0, open_streams = 1,
             native_calls = [Call_OpenStream]\<rparr>"

definition duplex_callback_kwargs :: open_kwargs where
  "duplex_callback_kwargs =
     \<lparr>kw_rate = 48000, kw_channels = 2, kw_format = 8, kw_input = 1, kw_output = 1,
      kw_input_device_index = ArgAbsent, kw_output_device_index = ArgAbsent,
      kw_frames_per_buffer = 0, kw_stream_callback = Some (PyCallable 0)\<rparr>"

definition duplex_kwargs :: open_kwargs where
  "duplex_kwargs =
     \<lparr>kw_rate = 44100, kw_channels = 2, kw_format = 8, kw_input = 1, kw_output = 1,
      kw_input_device_index = ArgAbsent, kw_output_device_index = ArgAbsent,
      kw_frames_per_buffer = 0, kw_stream_callback = Some (PyCallable 0)\<rparr>"

definition duplex_stream :: pyAudio_Stream where
  "duplex_stream =
     \<lparr>stream = Some 1,
      inputParameters =
        Some \<lparr>device = 0, channelCount = 2, sampleFormat = 8, suggestedLatency = Num 0.01,
              hostApiSpecificStreamInfo = None\<rparr>,
      outputParameters =
        Some \<lparr>device = 1, channelCount = 2, sampleFormat = 8, suggestedLatency = Num 0.02,
              hostApiSpecificStreamInfo = None\<rparr>,
      streamInfo =
        Some \<lparr>structVersion = 1, inputLatency = Num 0.01, outputLatency = Num 0.02,
              sampleRate = Num 44100\<rparr>,
      callbackContext = Some \<lparr>callback = PyCallable 0, main_thread_id = 42, frame_size = 4\<rparr>,
      is_open = 1\<rparr>"

definition world3 :: world where
  "world3 = \<lparr>live_allocs = 3, callback_refs = 1, open_streams = 1,
             native_calls = [Call_OpenStream]\<rparr>"

definition fake_pa_running :: native where
  "fake_pa_running = fake_pa\<lparr>Pa_GetStreamTime := \<lambda>st. Num 1.5\<rparr>"

definition input_kwargs :: "int \<Rightarrow> open_kwargs" where
  "input_kwargs i =
     \<lparr>kw_rate = 44100, kw_channels = 2, kw_format = 8, kw_input = 1, kw_output = 0,
      kw_input_device_index = ArgNumber i, kw_output_device_index = ArgAbsent,
      kw_frames_per_buffer = 0, kw_stream_callback = None\<rparr>"

definition output_index_kwargs :: "int \<Rightarrow> open_kwargs" where
  "output_index_kwargs i =
     \<lparr>kw_rate = 44100, kw_channels = 2, kw_format = 8, kw_input = 0, kw_output = 1,
      kw_input_device_index = ArgAbsent, kw_output_device_index = ArgNumber i,
      kw_frames_per_buffer = 0, kw_stream_callback = None\<rparr>"

section \<open>Properties\<close>

subsection \<open>Auxiliary facts\<close>

lemmas pa_constants =
  paContinue_def paComplete_def paAbort_def paNoError_def paInvalidSampleRate_def
  paInvalidDevice_def paSampleFormatNotSupported_def paInsufficientMemory_def
  paBadStreamPtr_def paInternalError_def paInputOverflowed_def paOutputUnderflowed_def

lemmas world_ops = malloc_def free_def Py_INCREF_def Py_XDECREF_def called_def

lemmas cleanup_defs =
  priv_cleanup_Stream_object_def cleanup_native_def cleanup_input_def cleanup_output_def
  cleanup_context_def

lemmas open_defs =
  pa_open_def open_output_parameters_def open_input_parameters_def
  open_callback_context_def open_native_def call_returns_def PyLong_AsLong_def c_int_def

lemma pa_max_num_bytes_exact:
  "unat bpf * unat fc < 2 ^ 64 \<Longrightarrow> pa_max_num_bytes bpf fc = unat bpf * unat fc"
proof -
  assume fits: "unat bpf * unat fc < 2 ^ 64"
  have "unat bpf < 2 ^ 32"
    using unsigned_less [of bpf] by simp
  then have "unat bpf < 2 ^ 64"
    by (rule less_trans) simp
  then have up: "unat (ucast bpf :: 64 word) = unat bpf"
    by (simp add: unsigned_ucast_eq take_bit_nat_eq_self)
  have "unat ((ucast bpf :: 64 word) * fc) = unat (ucast bpf :: 64 word) * unat fc"
    using fits up unat_mult_lem [of "ucast bpf :: 64 word" fc] by simp
  then show ?thesis
    by (simp add: pa_max_num_bytes_def up)
qed

lemma copy_short:
  "length src < n \<Longrightarrow>
   copy_for_playback dst n (Some src) (length src) rv =
     (paComplete, src @ replicate (n - length src) 0 @ drop n dst)"
  by (cases "src = []") (auto simp: copy_for_playback_def memcpy_def memset_def Let_def)

lemma copy_full:
  "n \<le> length src \<Longrightarrow>
   copy_for_playback dst n (Some src) (length src) rv = (rv, take n src @ drop n dst)"
  by (auto simp: copy_for_playback_def memcpy_def memset_def Let_def)

lemma pa_open_output_stream:
  "pa_open fake_pa 42 world0 output_kwargs = (world1, Inr output_stream)"
  by (simp add: open_defs output_kwargs_def fake_pa_def world0_def world1_def
      output_stream_def world_ops pa_constants Let_def)

lemma double_eq_zero: "double_eq t (Num 0) = (t = Num 0)"
  by (cases t) auto

text \<open>The C tear-down does what the spec describes: it releases each resource the object
  holds, closes a native stream that is there, and leaves the object closed.\<close>

lemma cleanup_refines: "priv_cleanup_Stream_object w s = spec_cleanup_stream w s"
  by (cases s; cases w)
    (simp add: cleanup_defs spec_cleanup_stream_def closed_stream_def held_def
      close_calls_def world_ops split: option.splits)


lemma pa_open_duplex_stream:
  "pa_open fake_pa 42 world0 duplex_kwargs = (world3, Inr duplex_stream)"
  by (simp add: open_defs duplex_kwargs_def fake_pa_def world0_def world3_def
      duplex_stream_def world_ops pa_constants Let_def)

text \<open>What both bridges do when the call of the callback raises: the process ends for
  \<^verbatim>\<open>SystemExit\<close>; for any other exception the bridge returns \<^verbatim>\<open>paAbort\<close>, leaves the
  output buffer alone and has passed the exception to \<^verbatim>\<open>PyThreadState_SetAsyncExc\<close> for
  the thread of the context.\<close>

lemma callback_raise_outcome:
  assumes "PyObject_CallFunctionObjArgs py (callback context)
             (callback_arguments inp frameCount timeInfo statusFlags context) = CallRaised e"
  shows "priv_stream_callback_cfunction py inp outp frameCount timeInfo statusFlags context =
           (if e = SystemExit then ProcessExit
            else Returned \<lparr>return_val = paAbort, output_mem = outp,
                           async_exc = [(main_thread_id context, e)]\<rparr>)"
    and "stream_callback_cfunc py inp outp frameCount timeInfo statusFlags context =
           (if e = SystemExit then ProcessExit
            else Returned \<lparr>return_val = paAbort, output_mem = outp,
                           async_exc = [(main_thread_id context, e)]\<rparr>)"
  using assms
  unfolding priv_stream_callback_cfunction_def stream_callback_cfunc_def
    callback_arguments_def callback_fault_def Let_def
  by (cases e; simp)+

subsection \<open>The callback bridge\<close>

text \<open>
  C1. When the callback returns bytes \<open>data\<close> with a valid continuation code on a stream
  with an output buffer, with \<open>needed = bytes_per_frame * frame_count\<close> (a size that fits a
  \<^verbatim>\<open>size_t\<close>): if \<open>length data < needed\<close>, the output buffer starts with all of \<open>data\<close>,
  continues with zeros up to \<open>needed\<close>, is unchanged beyond, and the bridge returns
  \<^verbatim>\<open>paComplete\<close> whatever code the callback gave; otherwise the first \<open>needed\<close> bytes of
  \<open>data\<close> are copied and the callback's code is returned. Both copies of the bridge.
\<close>

theorem callback_copies_pads_and_completes:
  assumes ret: "PyObject_CallFunctionObjArgs py (callback context)
                  (callback_arguments inp frameCount timeInfo statusFlags context) =
                CallReturned (PyTuple [PyBytes data, PyLong rv])"
    and valid: "rv = paContinue \<or> rv = paComplete \<or> rv = paAbort"
    and fits: "unat (frame_size context) * unat frameCount < 2 ^ 64"
  shows "let needed = unat (frame_size context) * unat frameCount;
             expected =
               (if length data < needed
                then \<lparr>return_val = paComplete,
                      output_mem = Some (data @ replicate (needed - length data) 0 @
                                         drop needed output_data),
                      async_exc = []\<rparr>
                else \<lparr>return_val = rv,
                      output_mem = Some (take needed data @ drop needed output_data),
                      async_exc = []\<rparr>)
         in priv_stream_callback_cfunction py inp (Some output_data) frameCount timeInfo
              statusFlags context = Returned expected \<and>
            stream_callback_cfunc py inp (Some output_data) frameCount timeInfo
              statusFlags context = Returned expected"
proof -
  have range: "- (2 ^ 31) \<le> rv \<and> rv < 2 ^ 31"
    using valid by (auto simp: paContinue_def paComplete_def paAbort_def)
  have parse: "PyArg_ParseTuple_z_hash_i (PyTuple [PyBytes data, PyLong rv]) =
               Inr (Some data, length data, rv)"
    using range by simp
  have ok: "(rv \<noteq> paComplete \<and> rv \<noteq> paAbort \<and> rv \<noteq> paContinue) = False"
    using valid by blast
  note mx = pa_max_num_bytes_exact [OF fits]
  show ?thesis
  proof (cases "length data < unat (frame_size context) * unat frameCount")
    case True
    then show ?thesis
      using ret parse mx
      unfolding priv_stream_callback_cfunction_def stream_callback_cfunc_def
        callback_arguments_def Let_def
      by (simp add: copy_short ok)
  next
    case False
    then show ?thesis
      using ret parse mx
      unfolding priv_stream_callback_cfunction_def stream_callback_cfunc_def
        callback_arguments_def Let_def
      by (simp add: copy_full ok)
  qed
qed

theorem callback_copies_witness:
  "PyObject_CallFunctionObjArgs fake_py (callback (context0 0))
     (callback_arguments None 2 time0 0 (context0 0)) =
     CallReturned (PyTuple [PyBytes [1, 2, 3], PyLong paContinue]) \<and>
   unat (frame_size (context0 0)) * unat (2 :: 64 word) < 2 ^ 64 \<and>
   priv_stream_callback_cfunction fake_py None (Some [9, 9, 9, 9, 9, 9, 9, 9, 9, 9]) 2 time0 0
     (context0 0) =
     Returned \<lparr>return_val = paComplete, output_mem = Some [1, 2, 3, 0, 0, 0, 0, 0, 9, 9],
               async_exc = []\<rparr> \<and>
   stream_callback_cfunc fake_py None (Some [9, 9, 9, 9, 9, 9, 9, 9, 9, 9]) 2 time0 0
     (context0 0) =
     Returned \<lparr>return_val = paComplete, output_mem = Some [1, 2, 3, 0, 0, 0, 0, 0, 9, 9],
               async_exc = []\<rparr>"
proof -
  have ret: "PyObject_CallFunctionObjArgs fake_py (callback (context0 0))
       (callback_arguments None 2 time0 0 (context0 0)) =
     CallReturned (PyTuple [PyBytes [1, 2, 3], PyLong paContinue])"
    by (simp add: context0_def fake_py_def)
  have fits: "unat (frame_size (context0 0)) * unat (2 :: 64 word) < 2 ^ 64"
    by (simp add: context0_def)
  have needed: "unat (frame_size (context0 0)) * unat (2 :: 64 word) = 8"
    by (simp add: context0_def)
  have zeros: "replicate (8 - length [1, 2, 3 :: byte]) (0 :: byte) = [0, 0, 0, 0, 0]"
    by (simp add: eval_nat_numeral)
  have rest: "drop 8 [9, 9, 9, 9, 9, 9, 9, 9, 9, 9 :: byte] = [9, 9]"
    by (simp add: eval_nat_numeral)
  show ?thesis
    using callback_copies_pads_and_completes [OF ret _ fits,
        of "[9, 9, 9, 9, 9, 9, 9, 9, 9, 9]"] ret fits
    unfolding needed Let_def zeros rest
    by simp
qed

subsection \<open>Blocking write\<close>

text \<open>
  C6. A write with a negative frame count ends with \<^verbatim>\<open>ValueError\<close> ("Invalid number of
  frames"); the world (hence the list of library calls) and the stream object are what they
  were. Both copies, whatever the helpers of \<^verbatim>\<open>stream_io.c\<close> do.
\<close>

theorem write_negative_frames_rejected:
  assumes "total_frames < 0"
  shows "pa_write_stream pa w s data total_frames flag =
           (w, s, Inl (value_error ''Invalid number of frames'')) \<and>
         sio_pa_write_stream is_stream_open cleanup_stream pa w s data total_frames flag =
           (w, s, Inl (value_error ''Invalid number of frames''))"
  using assms by (simp add: pa_write_stream_def sio_pa_write_stream_def)

theorem write_negative_frames_witness:
  "(- 1 :: int) < 0 \<and>
   pa_write_stream fake_pa world1 output_stream [0, 0, 0, 0] (- 1) 0 =
     (world1, output_stream, Inl (PyErr ValueError (PyStr ''Invalid number of frames''))) \<and>
   sio_pa_write_stream priv_is_open priv_cleanup_Stream_object fake_pa world1 output_stream
       [0, 0, 0, 0] (- 1) 0 =
     (world1, output_stream, Inl (PyErr ValueError (PyStr ''Invalid number of frames'')))"
proof -
  have neg: "(- 1 :: int) < 0" by simp
  show ?thesis
    using write_negative_frames_rejected [OF neg, of fake_pa world1 output_stream
        "[0, 0, 0, 0]" 0 priv_is_open priv_cleanup_Stream_object]
    by (simp add: value_error_def)
qed

text \<open>
  C9. On an open stream and with a non-negative frame count, the length of the data is not
  looked at: when the library accepts the write, the call succeeds, whatever the length;
  and two buffers for which the library answers alike give the same world, stream and
  result. The library call is logged with the stream and the frame count.
\<close>

theorem write_ignores_data_length:
  assumes "priv_is_open (Some s)" and "is_stream_open (Some s)" and "0 \<le> total_frames"
  shows "(if Pa_WriteStream pa (stream s) data total_frames = paNoError
          then pa_write_stream pa w s data total_frames flag =
                 (called (Call_WriteStream (stream s) total_frames) w, s, Inr PyNone) \<and>
               sio_pa_write_stream is_stream_open cleanup_stream pa w s data total_frames flag =
                 (called (Call_WriteStream (stream s) total_frames) w, s, Inr PyNone)
          else True) \<and>
         (if Pa_WriteStream pa (stream s) data total_frames =
             Pa_WriteStream pa (stream s) data' total_frames
          then pa_write_stream pa w s data total_frames flag =
                 pa_write_stream pa w s data' total_frames flag \<and>
               sio_pa_write_stream is_stream_open cleanup_stream pa w s data total_frames flag =
                 sio_pa_write_stream is_stream_open cleanup_stream pa w s data' total_frames flag
          else True)"
  using assms
  by (simp add: pa_write_stream_def sio_pa_write_stream_def Let_def)

theorem write_ignores_data_length_witness:
  "priv_is_open (Some output_stream) \<and> (0 :: int) \<le> 1024 \<and>
   pa_write_stream fake_pa world1 output_stream [1, 2, 3] 1024 0 =
     (called (Call_WriteStream (Some 1) 1024) world1, output_stream, Inr PyNone) \<and>
   pa_write_stream fake_pa world1 output_stream [1, 2, 3] 1024 0 =
     pa_write_stream fake_pa world1 output_stream (replicate 4096 0) 1024 0"
proof -
  have op: "priv_is_open (Some output_stream)"
    by (simp add: output_stream_def)
  have nn: "(0 :: int) \<le> 1024" by simp
  have st: "stream output_stream = Some 1"
    by (simp add: output_stream_def)
  have accepted: "Pa_WriteStream fake_pa st d n = paNoError" for st d n
    by (simp add: fake_pa_def)
  show ?thesis
    using write_ignores_data_length [where is_stream_open = priv_is_open
        and cleanup_stream = priv_cleanup_Stream_object and s = output_stream
        and pa = fake_pa and w = world1 and data = "[1, 2, 3]"
        and data' = "replicate 4096 0" and flag = 0, OF op op nn] op
    by (auto simp add: st accepted)
qed

subsection \<open>Stream time and availability\<close>

text \<open>
  C7. On an open stream, a reported stream time of zero tears the stream object down and
  ends with \<^verbatim>\<open>IOError\<close> carrying \<^verbatim>\<open>paInternalError\<close>: after the time query the native
  stream, when there is one, is closed with \<^verbatim>\<open>Pa_CloseStream\<close>; each parameter block and
  the callback context that the object holds is freed; the reference on the callback is
  given back when there is a context; and the object is left with every pointer \<^verbatim>\<open>NULL\<close>
  and \<^verbatim>\<open>is_open\<close> zero. Any other reported time is returned as it is: the only effect is
  the time query, and the stream object is untouched.
\<close>

theorem get_time_zero_tears_down:
  assumes "priv_is_open (Some s)"
  shows "pa_get_stream_time pa w s =
     (let t = Pa_GetStreamTime pa (stream s)
      in if t = Num 0
         then (\<lparr>live_allocs =
                   live_allocs w -
                     (held (inputParameters s) + held (outputParameters s) +
                      held (callbackContext s)),
                 callback_refs = callback_refs w - held (callbackContext s),
                 open_streams = open_streams w - held (stream s),
                 native_calls =
                   native_calls w @ Call_GetStreamTime (stream s) # close_calls (stream s)\<rparr>,
               closed_stream,
               Inl (io_error paInternalError ''Internal Error''))
         else (w\<lparr>native_calls := native_calls w @ [Call_GetStreamTime (stream s)]\<rparr>, s,
               Inr (PyFloat t)))"
  using assms
  by (simp add: pa_get_stream_time_def Let_def double_eq_zero cleanup_refines
      spec_cleanup_stream_def called_def)

theorem get_time_witness:
  "priv_is_open (Some duplex_stream) \<and>
   pa_open fake_pa 42 world0 duplex_kwargs = (world3, Inr duplex_stream) \<and>
   pa_get_stream_time fake_pa world3 duplex_stream =
     (\<lparr>live_allocs = 0, callback_refs = 0, open_streams = 0,
       native_calls = [Call_OpenStream, Call_GetStreamTime (Some 1), Call_CloseStream 1]\<rparr>,
      closed_stream, Inl (io_error paInternalError ''Internal Error'')) \<and>
   pa_get_stream_time fake_pa_running world3 duplex_stream =
     (\<lparr>live_allocs = 3, callback_refs = 1, open_streams = 1,
       native_calls = [Call_OpenStream, Call_GetStreamTime (Some 1)]\<rparr>,
      duplex_stream, Inr (PyFloat (Num 1.5)))"
proof -
  have op: "priv_is_open (Some duplex_stream)"
    by (simp add: duplex_stream_def)
  have fields:
    "stream duplex_stream = Some 1"
    "held (stream duplex_stream) = 1"
    "held (inputParameters duplex_stream) = 1"
    "held (outputParameters duplex_stream) = 1"
    "held (callbackContext duplex_stream) = 1"
    by (simp_all add: duplex_stream_def held_def)
  have some: "held (Some x) = 1" for x :: nat
    by (simp add: held_def)
  have times:
    "Pa_GetStreamTime fake_pa st = Num 0"
    "Pa_GetStreamTime fake_pa_running st = Num 1.5" for st
    by (simp_all add: fake_pa_running_def fake_pa_def)
  show ?thesis
    using get_time_zero_tears_down [OF op, of fake_pa world3]
      get_time_zero_tears_down [OF op, of fake_pa_running world3] op pa_open_duplex_stream
    by (simp add: fields times some Let_def world3_def close_calls_def)
qed

text \<open>
  C8. On an open stream, the two availability queries return the library's answer as a
  Python integer, negative or not, and leave the stream object untouched; the only effect
  is the library call. Both copies.
\<close>

theorem available_returned_verbatim:
  assumes "priv_is_open (Some s)" and "is_stream_open (Some s)"
  shows "pa_get_stream_write_available pa w s =
           (called (Call_GetStreamWriteAvailable (stream s)) w, s,
            Inr (PyLong (Pa_GetStreamWriteAvailable pa (stream s)))) \<and>
         pa_get_stream_read_available pa w s =
           (called (Call_GetStreamReadAvailable (stream s)) w, s,
            Inr (PyLong (Pa_GetStreamReadAvailable pa (stream s)))) \<and>
         sio_pa_get_stream_write_available is_stream_open pa w s =
           (called (Call_GetStreamWriteAvailable (stream s)) w, s,
            Inr (PyLong (Pa_GetStreamWriteAvailable pa (stream s)))) \<and>
         sio_pa_get_stream_read_available is_stream_open pa w s =
           (called (Call_GetStreamReadAvailable (stream s)) w, s,
            Inr (PyLong (Pa_GetStreamReadAvailable pa (stream s))))"
  using assms
  by (simp add: pa_get_stream_write_available_def pa_get_stream_read_available_def
      sio_pa_get_stream_write_available_def sio_pa_get_stream_read_available_def Let_def)

theorem available_witness:
  "priv_is_open (Some output_stream) \<and>
   pa_get_stream_read_available fake_pa world1 output_stream =
     (called (Call_GetStreamReadAvailable (Some 1)) world1, output_stream,
      Inr (PyLong (- 9988))) \<and>
   sio_pa_get_stream_read_available priv_is_open fake_pa world1 output_stream =
     (called (Call_GetStreamReadAvailable (Some 1)) world1, output_stream,
      Inr (PyLong (- 9988))) \<and>
   pa_get_stream_write_available fake_pa world1 output_stream =
     (called (Call_GetStreamWriteAvailable (Some 1)) world1, output_stream,
      Inr (PyLong 1024))"
proof -
  have op: "priv_is_open (Some output_stream)"
    by (simp add: output_stream_def)
  show ?thesis
    using available_returned_verbatim [where is_stream_open = priv_is_open
        and s = output_stream and pa = fake_pa and w = world1, OF op op] op
    by (simp add: fake_pa_def output_stream_def paBadStreamPtr_def)
qed

subsection \<open>The two copies\<close>


subsection \<open>Where the code departs from its description\<close>

text \<open>
  C5. A callback that raises \<^verbatim>\<open>SystemExit\<close>: both copies of the bridge reach
  \<^verbatim>\<open>PyErr_Print()\<close>, which ends the process, and neither returns \<^verbatim>\<open>paAbort\<close> to the
  audio library. For the other exceptions \<open>callback_raise_outcome\<close> above gives the return
  of \<^verbatim>\<open>paAbort\<close> with the exception passed to \<^verbatim>\<open>PyThreadState_SetAsyncExc\<close>.
\<close>

theorem callback_system_exit_ends_process:
  "PyObject_CallFunctionObjArgs fake_py (callback (context0 2))
     (callback_arguments None 2 time0 0 (context0 2)) = CallRaised SystemExit \<and>
   priv_stream_callback_cfunction fake_py None (Some [9, 9]) 2 time0 0 (context0 2) =
     ProcessExit \<and>
   stream_callback_cfunc fake_py None (Some [9, 9]) 2 time0 0 (context0 2) = ProcessExit"
  by (simp add: priv_stream_callback_cfunction_def stream_callback_cfunc_def
      callback_arguments_def callback_fault_def context0_def fake_py_def Let_def)

text \<open>
  C2. \<^verbatim>\<open>pa_open\<close> run with input, output and a callback at a rate the library refuses:
  the call ends with \<^verbatim>\<open>IOError\<close> carrying the library's code and message, and three
  allocated blocks (both parameter blocks and the callback context) and the reference
  taken on the callback are still held.
\<close>

theorem open_native_failure_leaks:
  "pa_open fake_pa 42 world0 duplex_callback_kwargs =
     (\<lparr>live_allocs = 3, callback_refs = 1, open_streams = 0,
       native_calls = [Call_OpenStream]\<rparr>,
      Inl (io_error paInvalidSampleRate ''Invalid sample rate''))"
  by (simp add: open_defs duplex_callback_kwargs_def fake_pa_def world0_def world_ops
      pa_constants Let_def)

text \<open>
  C3. An output-only stream as \<^verbatim>\<open>pa_open\<close> returns it, then a read of 1024 frames: the
  code reads \<^verbatim>\<open>channelCount\<close> through the \<^verbatim>\<open>NULL\<close> \<^verbatim>\<open>inputParameters\<close> pointer. Both copies.
\<close>

theorem read_output_only_dereferences_null:
  "pa_open fake_pa 42 world0 output_kwargs = (world1, Inr output_stream) \<and>
   pa_read_stream fake_pa world1 output_stream 1024 0 =
     (world1, output_stream, Inl NullDereference) \<and>
   sio_pa_read_stream priv_is_open priv_cleanup_Stream_object fake_pa world1 output_stream
       1024 0 =
     (world1, output_stream, Inl NullDereference)"
  by (simp add: pa_open_output_stream pa_read_stream_def sio_pa_read_stream_def
      output_stream_def)

text \<open>
  C4. With two devices, device index 2 is refused with \<^verbatim>\<open>paInvalidDevice\<close> for the output
  direction and nothing is left allocated; for the input direction the same index passes
  the test, and the code reads \<^verbatim>\<open>defaultLowInputLatency\<close> through the \<^verbatim>\<open>NULL\<close> pointer
  \<^verbatim>\<open>Pa_GetDeviceInfo\<close> returned, with the parameter block still allocated.
\<close>

theorem open_input_index_not_range_checked:
  "pa_open fake_pa 42 world0 (output_index_kwargs 2) =
     (world0, Inl (io_error paInvalidDevice
                     ''Invalid output device (no default output device)'')) \<and>
   pa_open fake_pa 42 world0 (input_kwargs 2) =
     (world0\<lparr>live_allocs := 1\<rparr>, Inl NullDereference)"
  by (simp add: open_defs output_index_kwargs_def input_kwargs_def fake_pa_def world0_def
      world_ops pa_constants Let_def)

end
